theory Spec2Isabelle
  imports Main "HOL-Library.Sublist"
begin

section \<open>Strings\<close>

text \<open>
  Python strings are modelled as byte strings in UTF-8: an emoji or an accented letter of a
  message literal is the sequence of its bytes. \<open>str.lower\<close> and \<open>str.capitalize\<close> are
  modelled on the ASCII letters, every other byte is left as it is. The four speed labels
  and the two sub-command words that the code compares lower-cased strings with are plain
  ASCII, and no non-ASCII character lower-cases to a letter occurring in them.
\<close>

definition ascii_uppercase :: string where
  "ascii_uppercase = ''ABCDEFGHIJKLMNOPQRSTUVWXYZ''"

definition ascii_lowercase :: string where
  "ascii_lowercase = ''abcdefghijklmnopqrstuvwxyz''"

definition lower_char :: "char \<Rightarrow> char" where
  "lower_char c =
     (case map_of (zip ascii_uppercase ascii_lowercase) c of None \<Rightarrow> c | Some l \<Rightarrow> l)"

definition upper_char :: "char \<Rightarrow> char" where
  "upper_char c =
     (case map_of (zip ascii_lowercase ascii_uppercase) c of None \<Rightarrow> c | Some u \<Rightarrow> u)"

definition lower :: "string \<Rightarrow> string" where
  "lower s = map lower_char s"

text \<open>\<open>s.capitalize()\<close>: first character upper-cased, the rest lower-cased.\<close>

fun capitalize :: "string \<Rightarrow> string" where
  "capitalize [] = []"
| "capitalize (c # cs) = upper_char c # lower cs"

text \<open>\<open>sep.join(xs)\<close>\<close>

fun join :: "string \<Rightarrow> string list \<Rightarrow> string" where
  "join sep [] = []"
| "join sep [x] = x"
| "join sep (x # y # ys) = x @ sep @ join sep (y # ys)"

definition nl :: string where
  "nl = [CHR 0x0A]"

section \<open>Data model\<close>

text \<open>
  The global dictionary \<open>dados\<close>. Its four keys are the fields of a record; the code reads
  them with \<open>dados.get(key, default)\<close>, so a key that is absent reads as its default
  (\<open>[]\<close>, \<open>set()\<close>, \<open>None\<close>), which is the value the field has here.
  \<open>partidas_notificadas\<close> is a Python \<open>set\<close> in memory.
\<close>

record dados_rec =
  gms_a_monitorar :: "string list"
  partidas_notificadas :: "string set"
  ritmos_permitidos :: "string list"
  chat_id :: "int option"

text \<open>
  The JSON object in the data file: the same keys, with \<open>partidas_notificadas\<close> as an array.
\<close>

record json_dados =
  json_gms_a_monitorar :: "string list"
  json_partidas_notificadas :: "string list"
  json_ritmos_permitidos :: "string list"
  json_chat_id :: "int option"

text \<open>
  The data file \<open>NOME_ARQUIVO_DADOS\<close>: absent (\<open>os.path.exists\<close> is false), holding text that
  \<open>json.load\<close> rejects, or holding a JSON object.
\<close>

datatype arquivo = Inexistente | Corrompido | Json json_dados

text \<open>
  The body of a 200 response of \<open>/api/user/{name}/current-game\<close>, as far as the code reads it:
  \<open>partida.get('id')\<close>, \<open>'opponent' in partida\<close> with \<open>partida['opponent'].get('username')\<close>,
  \<open>partida.get('speed')\<close> and \<open>partida['players']['white']['user']['name']\<close>. \<open>None\<close> is an
  absent key.
\<close>

datatype opponent = Opponent (username: "string option")

record partida =
  game_id :: "string option"
  game_opponent :: "opponent option"
  game_speed :: "string option"
  white_name :: "string option"

text \<open>
  What \<open>client.get\<close> does: it raises, or returns a response with a status code and a body;
  the body is \<open>None\<close> when \<open>response.json()\<close> raises.
\<close>

datatype resposta = Falha | Resposta (status_code: int) (json: "partida option")

datatype erro = HTTPError | JSONDecodeError | KeyError | TelegramError

text \<open>
  What the user sees: \<open>update.message.reply_text\<close> answers the chat that issued the command,
  \<open>context.bot.send_message\<close> writes to a chat identifier.
\<close>

datatype saida = Reply string | Send int string

text \<open>The records of \<open>logger\<close>, one constructor for each call in the source.\<close>

datatype log_record =
    Dados_salvos
  | Dados_carregados
  | Arquivo_criado
  | Chat_nao_configurado
  | Iniciando_verificacao
  | Erro_ao_verificar string erro
  | Erro_verificacao_manual string erro
  | Bot_iniciado "int option"

text \<open>
  The world outside the process during one operation: the answer of the chess server to a
  request for a player, whether the chat service accepts a message (\<open>False\<close>: \<open>send_message\<close>
  raises), and the order in which Python iterates a set (\<open>list(s)\<close>), which the language
  leaves open. Writing the data file and replying to a command are taken to succeed.
\<close>

record ambiente =
  http_get :: "string \<Rightarrow> resposta"
  send_message :: "int \<Rightarrow> string \<Rightarrow> bool"
  list_of_set :: "string set \<Rightarrow> string list"

text \<open>
  The state the operations act on: the dictionary, the data file, and three histories that
  only grow (what was shown to users, which players were requested from the server, what was
  logged).
\<close>

record estado =
  dados :: dados_rec
  arquivo :: arquivo
  saidas :: "saida list"
  pedidos :: "string list"
  logger :: "log_record list"

section \<open>Persistence\<close>

definition salvar_dados :: "ambiente \<Rightarrow> estado \<Rightarrow> estado" where
  "salvar_dados env s =
     s\<lparr>arquivo := Json
          \<lparr>json_gms_a_monitorar = gms_a_monitorar (dados s),
           json_partidas_notificadas = list_of_set env (partidas_notificadas (dados s)),
           json_ritmos_permitidos = ritmos_permitidos (dados s),
           json_chat_id = chat_id (dados s)\<rparr>,
       logger := logger s @ [Dados_salvos]\<rparr>"

definition dados_iniciais :: dados_rec where
  "dados_iniciais =
     \<lparr>gms_a_monitorar = [''magnuscarlsen'', ''hikaru''],
      partidas_notificadas = {},
      ritmos_permitidos = [],
      chat_id = None\<rparr>"

definition carregar_dados :: "ambiente \<Rightarrow> estado \<Rightarrow> erro + estado" where
  "carregar_dados env s =
     (case arquivo s of
        Json j \<Rightarrow>
          Inr (s\<lparr>dados :=
                   \<lparr>gms_a_monitorar = json_gms_a_monitorar j,
                    partidas_notificadas = set (json_partidas_notificadas j),
                    ritmos_permitidos = json_ritmos_permitidos j,
                    chat_id = json_chat_id j\<rparr>,
                 logger := logger s @ [Dados_carregados]\<rparr>)
      | Corrompido \<Rightarrow> Inl JSONDecodeError
      | Inexistente \<Rightarrow>
          (let s1 = salvar_dados env (s\<lparr>dados := dados_iniciais\<rparr>)
           in Inr (s1\<lparr>logger := logger s1 @ [Arquivo_criado]\<rparr>)))"

text \<open>
  Lines 95 and 96 of \<open>verificar_partidas\<close>:
  \<open>dados['partidas_notificadas'].add(id_partida); salvar_dados()\<close>.
\<close>

definition marcar_notificada :: "ambiente \<Rightarrow> string \<Rightarrow> estado \<Rightarrow> estado" where
  "marcar_notificada env id_partida s =
     salvar_dados env
       (s\<lparr>dados := (dados s)\<lparr>partidas_notificadas :=
                                 insert id_partida (partidas_notificadas (dados s))\<rparr>\<rparr>)"

section \<open>The scheduled check\<close>

definition megafone :: string where
  "megafone = [CHR 0xF0, CHR 0x9F, CHR 0x93, CHR 0xA2]"

definition espadas :: string where
  "espadas = [CHR 0xE2, CHR 0x9A, CHR 0x94, CHR 0xEF, CHR 0xB8, CHR 0x8F]"

definition ampulheta :: string where
  "ampulheta = [CHR 0xE2, CHR 0x8C, CHR 0x9B]"

definition paleta :: string where
  "paleta = [CHR 0xF0, CHR 0x9F, CHR 0x8E, CHR 0xA8]"

definition elo :: string where
  "elo = [CHR 0xF0, CHR 0x9F, CHR 0x94, CHR 0x97]"

definition visto :: string where
  "visto = [CHR 0xE2, CHR 0x9C, CHR 0x85]"

definition a_agudo :: string where
  "a_agudo = [CHR 0xC3, CHR 0xA1]"

definition e_agudo :: string where
  "e_agudo = [CHR 0xC3, CHR 0xA9]"

definition e_circunflexo :: string where
  "e_circunflexo = [CHR 0xC3, CHR 0xAA]"

definition link_partida :: "string \<Rightarrow> string" where
  "link_partida id_partida = ''https://lichess.org/'' @ id_partida"

text \<open>The f-string of lines 87 to 93.\<close>

definition mensagem :: "string \<Rightarrow> string \<Rightarrow> string \<Rightarrow> string \<Rightarrow> string \<Rightarrow> string" where
  "mensagem gm_username oponente ritmo_partida cor link =
     megafone @ '' *GM '' @ capitalize gm_username @ '' est'' @ a_agudo @ '' jogando!* ''
       @ megafone @ nl @ nl
     @ espadas @ '' *Oponente:* '' @ oponente @ nl
     @ ampulheta @ '' *Ritmo:* '' @ capitalize ritmo_partida @ nl
     @ paleta @ '' *Cor:* '' @ cor @ nl @ nl
     @ elo @ '' [Ver partida ao vivo]('' @ link @ '')''"

text \<open>
  What lines 78 to 93 make of a decoded body: \<open>continue\<close>, or the game identifier and the
  message to send, or the \<open>KeyError\<close> of \<open>partida['players']['white']['user']['name']\<close>.
\<close>

datatype decisao = Continue | Notificar string string

definition notificacao :: "dados_rec \<Rightarrow> string \<Rightarrow> partida \<Rightarrow> erro + decisao" where
  "notificacao d gm_username p =
     (case game_id p of
        None \<Rightarrow> Inr Continue
      | Some id_partida \<Rightarrow>
          (case game_opponent p of
             None \<Rightarrow> Inr Continue
           | Some opp \<Rightarrow>
               if id_partida = [] then Inr Continue
               else
                 let ritmo_partida = lower (case game_speed p of None \<Rightarrow> [] | Some r \<Rightarrow> r);
                     ritmos = ritmos_permitidos d
                 in if ritmos \<noteq> [] \<and> ritmo_partida \<notin> set ritmos then Inr Continue
                    else if id_partida \<in> partidas_notificadas d then Inr Continue
                    else
                      let oponente = (case username opp of
                                        None \<Rightarrow> ''Desconhecido'' | Some u \<Rightarrow> u)
                      in (case white_name p of
                            None \<Rightarrow> Inl KeyError
                          | Some w \<Rightarrow>
                              let cor = (if lower w = gm_username
                                         then ''Brancas'' else ''Negras'')
                              in Inr (Notificar id_partida
                                        (mensagem gm_username oponente ritmo_partida cor
                                           (link_partida id_partida))))))"

text \<open>
  The \<open>try\<close> block of one iteration, lines 73 to 96: the exception raised, if any, and the
  state reached when the block is left.
\<close>

definition tentar_partida :: "ambiente \<Rightarrow> int \<Rightarrow> string \<Rightarrow> estado \<Rightarrow> erro option \<times> estado" where
  "tentar_partida env chat gm_username s0 =
     (let s = s0\<lparr>pedidos := pedidos s0 @ [gm_username]\<rparr>
      in case http_get env gm_username of
           Falha \<Rightarrow> (Some HTTPError, s)
         | Resposta code body \<Rightarrow>
             if code = 200 then
               (case body of
                  None \<Rightarrow> (Some JSONDecodeError, s)
                | Some p \<Rightarrow>
                    (case notificacao (dados s) gm_username p of
                       Inl e \<Rightarrow> (Some e, s)
                     | Inr Continue \<Rightarrow> (None, s)
                     | Inr (Notificar id_partida texto) \<Rightarrow>
                         if send_message env chat texto
                         then (None, marcar_notificada env id_partida
                                       (s\<lparr>saidas := saidas s @ [Send chat texto]\<rparr>))
                         else (Some TelegramError, s)))
             else (None, s))"

text \<open>One iteration of the loop: the \<open>try\<close> block and its \<open>except Exception\<close> handler.\<close>

definition verificar_partidas_gm :: "ambiente \<Rightarrow> int \<Rightarrow> string \<Rightarrow> estado \<Rightarrow> estado" where
  "verificar_partidas_gm env chat gm_username s =
     (case tentar_partida env chat gm_username s of
        (None, s') \<Rightarrow> s'
      | (Some e, s') \<Rightarrow> s'\<lparr>logger := logger s' @ [Erro_ao_verificar gm_username e]\<rparr>)"

text \<open>\<open>if not chat_id\<close>: \<open>None\<close> and \<open>0\<close> are both false in Python.\<close>

definition chat_configurado :: "int option \<Rightarrow> int option" where
  "chat_configurado c = (case c of None \<Rightarrow> None | Some n \<Rightarrow> if n = 0 then None else Some n)"

definition verificar_partidas :: "ambiente \<Rightarrow> estado \<Rightarrow> estado" where
  "verificar_partidas env s =
     (case chat_configurado (chat_id (dados s)) of
        None \<Rightarrow> s\<lparr>logger := logger s @ [Chat_nao_configurado]\<rparr>
      | Some chat \<Rightarrow>
          fold (verificar_partidas_gm env chat) (gms_a_monitorar (dados s))
            (s\<lparr>logger := logger s @ [Iniciando_verificacao]\<rparr>))"

section \<open>The commands\<close>

definition texto_ola :: string where
  "texto_ola = ''Ol'' @ a_agudo @ ''! Sou seu bot de monitoramento de Xadrez.'' @ nl
     @ ''Use o comando /ajuda para ver o que posso fazer.''"

definition start :: "ambiente \<Rightarrow> int \<Rightarrow> estado \<Rightarrow> estado" where
  "start env effective_chat_id s =
     (let s1 = salvar_dados env (s\<lparr>dados := (dados s)\<lparr>chat_id := Some effective_chat_id\<rparr>\<rparr>);
          s2 = s1\<lparr>saidas := saidas s1 @ [Reply texto_ola]\<rparr>
      in s2\<lparr>logger := logger s2 @ [Bot_iniciado (chat_id (dados s2))]\<rparr>)"

definition texto_verificando :: string where
  "texto_verificando = ''Verificando os GMs, um momento...''"

definition texto_use_start :: string where
  "texto_use_start = ''Por favor, use /start primeiro para eu saber quem voc'' @ e_circunflexo
     @ '' '' @ e_agudo @ ''.''"

definition texto_ninguem :: string where
  "texto_ninguem = ''Verifiquei toda a lista. Ningu'' @ e_agudo @ ''m est'' @ a_agudo
     @ '' jogando no momento.''"

text \<open>The f-string of lines 145 to 150.\<close>

definition mensagem_agora :: "string \<Rightarrow> string \<Rightarrow> string \<Rightarrow> string \<Rightarrow> string" where
  "mensagem_agora gm_username oponente ritmo_partida link =
     visto @ '' *'' @ capitalize gm_username @ ''* est'' @ a_agudo @ '' jogando agora!'' @ nl
     @ ''Oponente: '' @ oponente @ nl
     @ ''Ritmo: '' @ ritmo_partida @ nl
     @ elo @ '' [Ver partida]('' @ link @ '')''"

text \<open>Lines 139 to 150 of \<open>verificar_agora\<close>: \<open>continue\<close>, or the message to send.\<close>

definition notificacao_agora :: "string \<Rightarrow> partida \<Rightarrow> string option" where
  "notificacao_agora gm_username p =
     (case game_id p of
        None \<Rightarrow> None
      | Some id_partida \<Rightarrow>
          (case game_opponent p of
             None \<Rightarrow> None
           | Some opp \<Rightarrow>
               if id_partida = [] then None
               else
                 let oponente = (case username opp of
                                   None \<Rightarrow> ''Desconhecido'' | Some u \<Rightarrow> u);
                     ritmo_partida = capitalize (case game_speed p of
                                                   None \<Rightarrow> ''Desconhecido'' | Some r \<Rightarrow> r)
                 in Some (mensagem_agora gm_username oponente ritmo_partida
                            (link_partida id_partida))))"

text \<open>
  The \<open>try\<close> block of one iteration of \<open>verificar_agora\<close>, lines 134 to 151, on the counter
  \<open>jogos_encontrados\<close> and the state.
\<close>

definition tentar_agora ::
    "ambiente \<Rightarrow> int \<Rightarrow> string \<Rightarrow> nat \<times> estado \<Rightarrow> erro option \<times> nat \<times> estado" where
  "tentar_agora env chat gm_username js =
     (let jogos_encontrados = fst js;
          s = (snd js)\<lparr>pedidos := pedidos (snd js) @ [gm_username]\<rparr>
      in case http_get env gm_username of
           Falha \<Rightarrow> (Some HTTPError, jogos_encontrados, s)
         | Resposta code body \<Rightarrow>
             if code = 200 then
               (let jogos_encontrados = jogos_encontrados + 1
                in case body of
                     None \<Rightarrow> (Some JSONDecodeError, jogos_encontrados, s)
                   | Some p \<Rightarrow>
                       (case notificacao_agora gm_username p of
                          None \<Rightarrow> (None, jogos_encontrados, s)
                        | Some texto \<Rightarrow>
                            if send_message env chat texto
                            then (None, jogos_encontrados,
                                  s\<lparr>saidas := saidas s @ [Send chat texto]\<rparr>)
                            else (Some TelegramError, jogos_encontrados, s)))
             else (None, jogos_encontrados, s))"

definition verificar_agora_gm :: "ambiente \<Rightarrow> int \<Rightarrow> string \<Rightarrow> nat \<times> estado \<Rightarrow> nat \<times> estado" where
  "verificar_agora_gm env chat gm_username js =
     (case tentar_agora env chat gm_username js of
        (None, n, s') \<Rightarrow> (n, s')
      | (Some e, n, s') \<Rightarrow>
          (n, s'\<lparr>logger := logger s' @ [Erro_verificacao_manual gm_username e]\<rparr>))"

definition verificar_agora :: "ambiente \<Rightarrow> estado \<Rightarrow> estado" where
  "verificar_agora env s0 =
     (let s = s0\<lparr>saidas := saidas s0 @ [Reply texto_verificando]\<rparr>
      in case chat_configurado (chat_id (dados s)) of
           None \<Rightarrow> s\<lparr>saidas := saidas s @ [Reply texto_use_start]\<rparr>
         | Some chat \<Rightarrow>
             (let js = fold (verificar_agora_gm env chat) (gms_a_monitorar (dados s)) (0, s)
              in if fst js = 0
                 then (snd js)\<lparr>saidas := saidas (snd js) @ [Reply texto_ninguem]\<rparr>
                 else snd js))"

definition ritmos_validos :: "string list" where
  "ritmos_validos = [''bullet'', ''blitz'', ''rapid'', ''classical'']"

text \<open>
  The last branch of \<open>filtro_ritmo\<close>, lines 203 to 210, on the arguments of the command.
\<close>

definition definir_filtro :: "ambiente \<Rightarrow> string list \<Rightarrow> estado \<Rightarrow> estado" where
  "definir_filtro env args s =
     (let novos_ritmos = map lower (filter (\<lambda>r. lower r \<in> set ritmos_validos) args)
      in if novos_ritmos \<noteq> [] then
           (let s1 = salvar_dados env (s\<lparr>dados := (dados s)\<lparr>ritmos_permitidos := novos_ritmos\<rparr>\<rparr>)
            in s1\<lparr>saidas := saidas s1 @
                 [Reply (''Filtro de ritmo atualizado para: '' @ join '', '' novos_ritmos)]\<rparr>)
         else s\<lparr>saidas := saidas s @
                 [Reply (''Nenhum ritmo v'' @ a_agudo @ ''lido encontrado.'')]\<rparr>)"

definition filtro_ritmo :: "ambiente \<Rightarrow> string list \<Rightarrow> estado \<Rightarrow> estado" where
  "filtro_ritmo env args s =
     (case args of
        [] \<Rightarrow> s\<lparr>saidas := saidas s @ [Reply ''Uso: /filtroritmo <ritmo1> ou ver/todos'']\<rparr>
      | arg0 # _ \<Rightarrow>
          (let primeiro_arg = lower arg0
           in if primeiro_arg = ''ver'' then
                (if ritmos_permitidos (dados s) \<noteq> []
                 then s\<lparr>saidas := saidas s @
                        [Reply (''Filtro atual: '' @ join '', '' (ritmos_permitidos (dados s)))]\<rparr>
                 else s\<lparr>saidas := saidas s @ [Reply ''Nenhum filtro de ritmo ativo.'']\<rparr>)
              else if primeiro_arg = ''todos'' then
                (let s1 = salvar_dados env (s\<lparr>dados := (dados s)\<lparr>ritmos_permitidos := []\<rparr>\<rparr>)
                 in s1\<lparr>saidas := saidas s1 @ [Reply ''Filtro de ritmo removido.'']\<rparr>)
              else definir_filtro env args s))"

section \<open>Example inputs\<close>

text \<open>
  A chess server on which \<open>alice\<close> plays the blitz game \<open>g3\<close> with the white pieces against
  \<open>bob\<close>, \<open>carol\<close> has no game (404) and the request for anybody else fails; a chat service
  that accepts every message; sets are iterated in the order \<open>g3\<close>, \<open>g2\<close>, \<open>g1\<close>.
\<close>

definition partida0 :: partida where
  "partida0 = \<lparr>game_id = Some ''g3'', game_opponent = Some (Opponent (Some ''bob'')),
                game_speed = Some ''blitz'', white_name = Some ''Alice''\<rparr>"

definition env0 :: ambiente where
  "env0 = \<lparr>http_get = (\<lambda>gm. if gm = ''alice'' then Resposta 200 (Some partida0)
                              else if gm = ''carol'' then Resposta 404 None else Falha),
            send_message = (\<lambda>_ _. True),
            list_of_set = (\<lambda>S. filter (\<lambda>x. x \<in> S) [''g3'', ''g2'', ''g1''])\<rparr>"

definition estado0 :: estado where
  "estado0 = \<lparr>dados = \<lparr>gms_a_monitorar = [''dave'', ''alice'', ''carol''],
                        partidas_notificadas = {''g1'', ''g2''},
                        ritmos_permitidos = [], chat_id = Some 7\<rparr>,
               arquivo = Inexistente, saidas = [], pedidos = [], logger = []\<rparr>"

section \<open>Persistence round trip\<close>

lemma count_list_distinct_member:
  "distinct xs \<Longrightarrow> x \<in> set xs \<Longrightarrow> count_list xs x = 1"
  by (induction xs) (auto simp: count_list_0_iff)

text \<open>
  Claim C3. Saving and then loading reproduces the dictionary: whatever the dictionary in
  memory is when \<open>carregar_dados\<close> runs (\<open>d0\<close>, after a restart), loading the file written by
  \<open>salvar_dados\<close> succeeds and gives back the monitored players as the same sequence, the
  notified games as the same set, the allowed speeds and the chat identifier. The order in
  which the set was written does not matter: all that is used of \<open>list(s)\<close> is that it lists
  the elements of \<open>s\<close>.
\<close>

theorem salvar_carregar_roundtrip:
  assumes "set (list_of_set env (partidas_notificadas (dados s))) = partidas_notificadas (dados s)"
  shows "\<exists>s'. carregar_dados env ((salvar_dados env s)\<lparr>dados := d0\<rparr>) = Inr s'
            \<and> gms_a_monitorar (dados s') = gms_a_monitorar (dados s)
            \<and> partidas_notificadas (dados s') = partidas_notificadas (dados s)
            \<and> ritmos_permitidos (dados s') = ritmos_permitidos (dados s)
            \<and> chat_id (dados s') = chat_id (dados s)
            \<and> dados s' = dados s
            \<and> arquivo s' = arquivo (salvar_dados env s)"
  using assms by (simp add: carregar_dados_def salvar_dados_def)

theorem salvar_carregar_roundtrip_witness:
  "set (list_of_set env0 (partidas_notificadas (dados estado0)))
     = partidas_notificadas (dados estado0)
   \<and> (\<exists>s'. carregar_dados env0 ((salvar_dados env0 estado0)\<lparr>dados := dados_iniciais\<rparr>) = Inr s'
          \<and> dados s' = dados estado0)"
proof -
  have h: "set (list_of_set env0 (partidas_notificadas (dados estado0)))
             = partidas_notificadas (dados estado0)"
    by (auto simp: env0_def estado0_def)
  from salvar_carregar_roundtrip [OF h, of dados_iniciais] h
  show ?thesis by blast
qed

section \<open>Marking a game as notified\<close>

text \<open>
  Claim C6. Marking the game \<open>g\<close> as notified twice is the same as marking it once: the
  dictionary and the file after the second call are those after the first, the set is the old
  set with \<open>g\<close> in it, and in the array written to the file \<open>g\<close> occurs exactly once (the
  array being \<open>list(s)\<close> of a set, which lists each element once).
\<close>

theorem marcar_notificada_idempotent:
  "dados (marcar_notificada env g (marcar_notificada env g s)) = dados (marcar_notificada env g s)
   \<and> arquivo (marcar_notificada env g (marcar_notificada env g s))
       = arquivo (marcar_notificada env g s)
   \<and> g \<in> partidas_notificadas (dados (marcar_notificada env g (marcar_notificada env g s)))
   \<and> partidas_notificadas (dados (marcar_notificada env g (marcar_notificada env g s)))
       = insert g (partidas_notificadas (dados s))
   \<and> (\<exists>j. arquivo (marcar_notificada env g (marcar_notificada env g s)) = Json j
        \<and> json_partidas_notificadas j = list_of_set env (insert g (partidas_notificadas (dados s)))
        \<and> (distinct (list_of_set env (insert g (partidas_notificadas (dados s))))
             \<and> set (list_of_set env (insert g (partidas_notificadas (dados s))))
                 = insert g (partidas_notificadas (dados s))
            \<longrightarrow> count_list (json_partidas_notificadas j) g = 1))"
  by (auto simp: marcar_notificada_def salvar_dados_def count_list_distinct_member)

theorem marcar_notificada_idempotent_witness:
  "distinct (list_of_set env0 (insert ''g3'' (partidas_notificadas (dados estado0))))
   \<and> set (list_of_set env0 (insert ''g3'' (partidas_notificadas (dados estado0))))
       = insert ''g3'' (partidas_notificadas (dados estado0))
   \<and> (\<exists>j. arquivo (marcar_notificada env0 ''g3'' (marcar_notificada env0 ''g3'' estado0)) = Json j
        \<and> count_list (json_partidas_notificadas j) ''g3'' = 1)"
proof -
  have d: "distinct (list_of_set env0 (insert ''g3'' (partidas_notificadas (dados estado0))))"
    by (simp add: env0_def)
  have e: "set (list_of_set env0 (insert ''g3'' (partidas_notificadas (dados estado0))))
             = insert ''g3'' (partidas_notificadas (dados estado0))"
    by (auto simp: env0_def estado0_def)
  from marcar_notificada_idempotent [of env0 "''g3''" estado0] d e
  show ?thesis by blast
qed

section \<open>Setting the speed filter\<close>

lemmas str_simps = lower_def lower_char_def upper_char_def ascii_uppercase_def ascii_lowercase_def

lemma novos_ritmos_eq:
  "map lower (filter (\<lambda>r. lower r \<in> set ritmos_validos) args)
     = filter (\<lambda>r. r \<in> set ritmos_validos) (map lower args)"
  by (induction args) auto

lemma set_novos_ritmos:
  "set (map lower (filter (\<lambda>r. lower r \<in> set ritmos_validos) args))
     = set (map lower args) \<inter> set ritmos_validos"
  by auto

lemma lower_bullet: "lower ''bullet'' = ''bullet''" by (simp add: str_simps)
lemma lower_nonsense: "lower ''nonsense'' = ''nonsense''" by (simp add: str_simps)
lemma lower_blitz: "lower ''blitz'' = ''blitz''" by (simp add: str_simps)

text \<open>
  Claim C4. Setting the speed filter (the last branch of \<open>filtro_ritmo\<close>, which the command
  reaches whenever its first argument is neither \<open>ver\<close> nor \<open>todos\<close>) on any sequence of
  arguments: if some argument, lower-cased, is one of \<open>bullet\<close>, \<open>blitz\<close>, \<open>rapid\<close>,
  \<open>classical\<close>, the allowed speeds become, as a set, the lower-cased arguments intersected
  with these four, nothing else in the dictionary changes, the dictionary is saved and the
  caller is told the new filter; otherwise the dictionary and the file are left as they were
  and the caller is told that no valid speed was found.
\<close>

theorem definir_filtro_intersection:
  "set ritmos_validos = {''bullet'', ''blitz'', ''rapid'', ''classical''}
   \<and> (set (map lower args) \<inter> set ritmos_validos \<noteq> {} \<longrightarrow>
        set (ritmos_permitidos (dados (definir_filtro env args s)))
          = set (map lower args) \<inter> set ritmos_validos
        \<and> dados (definir_filtro env args s)
            = (dados s)\<lparr>ritmos_permitidos := ritmos_permitidos (dados (definir_filtro env args s))\<rparr>
        \<and> arquivo (definir_filtro env args s)
            = arquivo (salvar_dados env (s\<lparr>dados := dados (definir_filtro env args s)\<rparr>))
        \<and> saidas (definir_filtro env args s)
            = saidas s @ [Reply (''Filtro de ritmo atualizado para: ''
                                 @ join '', '' (ritmos_permitidos (dados (definir_filtro env args s))))])
   \<and> (set (map lower args) \<inter> set ritmos_validos = {} \<longrightarrow>
        dados (definir_filtro env args s) = dados s
        \<and> arquivo (definir_filtro env args s) = arquivo s
        \<and> saidas (definir_filtro env args s)
            = saidas s @ [Reply (''Nenhum ritmo v'' @ a_agudo @ ''lido encontrado.'')])
   \<and> (\<forall>a as. args = a # as \<and> lower a \<noteq> ''ver'' \<and> lower a \<noteq> ''todos'' \<longrightarrow>
        filtro_ritmo env args s = definir_filtro env args s)"
proof (intro conjI impI allI)
  show "set ritmos_validos = {''bullet'', ''blitz'', ''rapid'', ''classical''}"
    by (simp add: ritmos_validos_def)
next
  assume ne: "set (map lower args) \<inter> set ritmos_validos \<noteq> {}"
  then have n: "map lower (filter (\<lambda>r. lower r \<in> set ritmos_validos) args) \<noteq> []"
    using set_novos_ritmos [of args] by (metis set_empty)
  from n show "set (ritmos_permitidos (dados (definir_filtro env args s)))
          = set (map lower args) \<inter> set ritmos_validos"
    using set_novos_ritmos [of args] by (simp add: definir_filtro_def Let_def salvar_dados_def)
  from n show "dados (definir_filtro env args s)
            = (dados s)\<lparr>ritmos_permitidos := ritmos_permitidos (dados (definir_filtro env args s))\<rparr>"
    by (simp add: definir_filtro_def Let_def salvar_dados_def)
  from n show "arquivo (definir_filtro env args s)
            = arquivo (salvar_dados env (s\<lparr>dados := dados (definir_filtro env args s)\<rparr>))"
    by (simp add: definir_filtro_def Let_def salvar_dados_def)
  from n show "saidas (definir_filtro env args s)
            = saidas s @ [Reply (''Filtro de ritmo atualizado para: ''
                                 @ join '', '' (ritmos_permitidos (dados (definir_filtro env args s))))]"
    by (simp add: definir_filtro_def Let_def salvar_dados_def)
next
  assume e: "set (map lower args) \<inter> set ritmos_validos = {}"
  then have n: "map lower (filter (\<lambda>r. lower r \<in> set ritmos_validos) args) = []"
    using set_novos_ritmos [of args] by (metis set_empty)
  from n show "dados (definir_filtro env args s) = dados s"
    by (simp add: definir_filtro_def Let_def del: map_is_Nil_conv filter_False)
  from n show "arquivo (definir_filtro env args s) = arquivo s"
    by (simp add: definir_filtro_def Let_def)
  from n show "saidas (definir_filtro env args s)
            = saidas s @ [Reply (''Nenhum ritmo v'' @ a_agudo @ ''lido encontrado.'')]"
    by (simp add: definir_filtro_def Let_def)
next
  fix a as
  assume "args = a # as \<and> lower a \<noteq> ''ver'' \<and> lower a \<noteq> ''todos''"
  then show "filtro_ritmo env args s = definir_filtro env args s"
    by (simp add: filtro_ritmo_def Let_def)
qed

theorem definir_filtro_intersection_witness:
  "set (map lower [''bullet'', ''nonsense'']) \<inter> set ritmos_validos \<noteq> {}
   \<and> set (ritmos_permitidos (dados (definir_filtro env0 [''bullet'', ''nonsense''] estado0)))
       = {''bullet''}
   \<and> set (map lower [''nonsense'']) \<inter> set ritmos_validos = {}
   \<and> ritmos_permitidos (dados (definir_filtro env0 [''nonsense''] estado0))
       = ritmos_permitidos (dados estado0)
   \<and> lower ''bullet'' \<noteq> ''ver'' \<and> lower ''bullet'' \<noteq> ''todos''
   \<and> filtro_ritmo env0 [''bullet'', ''nonsense''] estado0
       = definir_filtro env0 [''bullet'', ''nonsense''] estado0"
proof -
  have a: "set (map lower [''bullet'', ''nonsense'']) \<inter> set ritmos_validos = {''bullet''}"
    by (simp add: lower_bullet lower_nonsense ritmos_validos_def)
  then have a': "set (map lower [''bullet'', ''nonsense'']) \<inter> set ritmos_validos \<noteq> {}"
    by simp
  have b: "set (map lower [''nonsense'']) \<inter> set ritmos_validos = {}"
    by (simp add: lower_nonsense ritmos_validos_def)
  have c: "[''bullet'', ''nonsense''] = ''bullet'' # [''nonsense'']
             \<and> lower ''bullet'' \<noteq> ''ver'' \<and> lower ''bullet'' \<noteq> ''todos''"
    by (simp add: lower_bullet)
  note t1 = definir_filtro_intersection [of "[''bullet'', ''nonsense'']" env0 estado0]
  note t2 = definir_filtro_intersection [of "[''nonsense'']" env0 estado0]
  from t1 a' have 1: "set (ritmos_permitidos (dados (definir_filtro env0 [''bullet'', ''nonsense''] estado0)))
       = set (map lower [''bullet'', ''nonsense'']) \<inter> set ritmos_validos"
    by blast
  from t2 b have 2: "dados (definir_filtro env0 [''nonsense''] estado0) = dados estado0"
    by blast
  from t1 c have 3: "filtro_ritmo env0 [''bullet'', ''nonsense''] estado0
       = definir_filtro env0 [''bullet'', ''nonsense''] estado0"
    by blast
  from 1 a have 4: "set (ritmos_permitidos (dados (definir_filtro env0 [''bullet'', ''nonsense''] estado0)))
       = {''bullet''}" by simp
  from 2 have 5: "ritmos_permitidos (dados (definir_filtro env0 [''nonsense''] estado0))
       = ritmos_permitidos (dados estado0)" by simp
  from a' 4 b 5 c 3 show ?thesis by blast
qed

lemma notificacao_set_ritmos:
  assumes "set r1 = set r2"
  shows "notificacao (d\<lparr>ritmos_permitidos := r1\<rparr>) gm p
           = notificacao (d\<lparr>ritmos_permitidos := r2\<rparr>) gm p"
proof -
  from assms have e: "(r1 = []) = (r2 = [])"
    by (metis set_empty)
  have c: "(r1 \<noteq> [] \<and> x \<notin> set r1) = (r2 \<noteq> [] \<and> x \<notin> set r2)" for x
    using assms e by simp
  show ?thesis
  proof (cases "game_id p")
    case None
    then show ?thesis by (simp add: notificacao_def)
  next
    case (Some i)
    show ?thesis
    proof (cases "game_opponent p")
      case None
      with Some show ?thesis by (simp add: notificacao_def)
    next
      case (Some opp)
      with \<open>game_id p = Some i\<close> show ?thesis
        by (simp add: notificacao_def Let_def c)
    qed
  qed
qed

text \<open>
  Claim C9. The filter is stored as a sequence: the valid arguments lower-cased, in the order
  and with the multiplicity of the input, so that \<open>blitz blitz\<close> stores \<open>blitz\<close> twice. What the
  scheduled check makes of a game depends on the stored sequence only through the set of its
  elements: two filters with the same elements give the same decision, and removing the
  duplicates of a filter changes nothing.
\<close>

theorem definir_filtro_sequence:
  "(filter (\<lambda>r. r \<in> set ritmos_validos) (map lower args) \<noteq> [] \<longrightarrow>
      ritmos_permitidos (dados (definir_filtro env args s))
        = filter (\<lambda>r. r \<in> set ritmos_validos) (map lower args))
   \<and> ritmos_permitidos (dados (definir_filtro env [''blitz'', ''blitz''] s)) = [''blitz'', ''blitz'']
   \<and> length (ritmos_permitidos (dados (definir_filtro env [''blitz'', ''blitz''] s))) = 2
   \<and> count_list (ritmos_permitidos (dados (definir_filtro env [''blitz'', ''blitz''] s))) ''blitz'' = 2
   \<and> (\<forall>r1 r2. set r1 = set r2 \<longrightarrow>
         notificacao (d\<lparr>ritmos_permitidos := r1\<rparr>) gm p
           = notificacao (d\<lparr>ritmos_permitidos := r2\<rparr>) gm p)
   \<and> notificacao (d\<lparr>ritmos_permitidos := remdups (ritmos_permitidos d)\<rparr>) gm p
       = notificacao d gm p"
proof -
  have ex: "ritmos_permitidos (dados (definir_filtro env [''blitz'', ''blitz''] s)) = [''blitz'', ''blitz'']"
    by (simp add: definir_filtro_def Let_def salvar_dados_def lower_blitz ritmos_validos_def)
  have gen: "filter (\<lambda>r. r \<in> set ritmos_validos) (map lower args) \<noteq> [] \<longrightarrow>
      ritmos_permitidos (dados (definir_filtro env args s))
        = filter (\<lambda>r. r \<in> set ritmos_validos) (map lower args)"
    unfolding novos_ritmos_eq [symmetric]
    by (simp add: definir_filtro_def Let_def salvar_dados_def del: map_is_Nil_conv)
  have "notificacao (d\<lparr>ritmos_permitidos := remdups (ritmos_permitidos d)\<rparr>) gm p
       = notificacao (d\<lparr>ritmos_permitidos := ritmos_permitidos d\<rparr>) gm p"
    by (rule notificacao_set_ritmos) simp
  then have rd: "notificacao (d\<lparr>ritmos_permitidos := remdups (ritmos_permitidos d)\<rparr>) gm p
       = notificacao d gm p"
    by simp
  have len: "length [''blitz'', ''blitz''] = 2
             \<and> count_list [''blitz'', ''blitz''] ''blitz'' = 2" by simp
  have mem: "\<forall>r1 r2. set r1 = set r2 \<longrightarrow>
         notificacao (d\<lparr>ritmos_permitidos := r1\<rparr>) gm p
           = notificacao (d\<lparr>ritmos_permitidos := r2\<rparr>) gm p"
    using notificacao_set_ritmos by blast
  from len have len': "length (ritmos_permitidos (dados (definir_filtro env [''blitz'', ''blitz''] s))) = 2
     \<and> count_list (ritmos_permitidos (dados (definir_filtro env [''blitz'', ''blitz''] s))) ''blitz'' = 2"
    unfolding ex .
  from gen ex len' mem rd show ?thesis by blast
qed

theorem definir_filtro_sequence_witness:
  "filter (\<lambda>r. r \<in> set ritmos_validos) (map lower [''Rapid'', ''x'', ''bullet'', ''RAPID'']) \<noteq> []
   \<and> ritmos_permitidos (dados (definir_filtro env0 [''Rapid'', ''x'', ''bullet'', ''RAPID''] estado0))
       = [''rapid'', ''bullet'', ''rapid'']
   \<and> set [''blitz'', ''blitz''] = set [''blitz'']
   \<and> notificacao ((dados estado0)\<lparr>ritmos_permitidos := [''blitz'', ''blitz'']\<rparr>) ''alice'' partida0
       = notificacao ((dados estado0)\<lparr>ritmos_permitidos := [''blitz'']\<rparr>) ''alice'' partida0"
proof -
  have l: "map lower [''Rapid'', ''x'', ''bullet'', ''RAPID''] = [''rapid'', ''x'', ''bullet'', ''rapid'']"
    by (simp add: str_simps)
  have f: "filter (\<lambda>r. r \<in> set ritmos_validos) (map lower [''Rapid'', ''x'', ''bullet'', ''RAPID''])
             = [''rapid'', ''bullet'', ''rapid'']"
    unfolding l by (simp add: ritmos_validos_def)
  have s: "set [''blitz'', ''blitz''] = set [''blitz'']" by simp
  note t = definir_filtro_sequence [of "[''Rapid'', ''x'', ''bullet'', ''RAPID'']" env0 estado0
                "dados estado0" "''alice''" partida0]
  from f have ne: "filter (\<lambda>r. r \<in> set ritmos_validos)
                     (map lower [''Rapid'', ''x'', ''bullet'', ''RAPID'']) \<noteq> []"
    by simp
  from t have t1: "filter (\<lambda>r. r \<in> set ritmos_validos)
                     (map lower [''Rapid'', ''x'', ''bullet'', ''RAPID'']) \<noteq> [] \<longrightarrow>
      ritmos_permitidos (dados (definir_filtro env0 [''Rapid'', ''x'', ''bullet'', ''RAPID''] estado0))
       = filter (\<lambda>r. r \<in> set ritmos_validos) (map lower [''Rapid'', ''x'', ''bullet'', ''RAPID''])"
    by (rule conjunct1)
  from t1 ne have 1: "ritmos_permitidos (dados (definir_filtro env0 [''Rapid'', ''x'', ''bullet'', ''RAPID''] estado0))
       = filter (\<lambda>r. r \<in> set ritmos_validos) (map lower [''Rapid'', ''x'', ''bullet'', ''RAPID''])"
    by (rule mp)
  from t have t5: "\<forall>r1 r2. set r1 = set r2 \<longrightarrow>
         notificacao ((dados estado0)\<lparr>ritmos_permitidos := r1\<rparr>) ''alice'' partida0
           = notificacao ((dados estado0)\<lparr>ritmos_permitidos := r2\<rparr>) ''alice'' partida0"
    by (elim conjE)
  from t5 s have 2: "notificacao ((dados estado0)\<lparr>ritmos_permitidos := [''blitz'', ''blitz'']\<rparr>) ''alice'' partida0
       = notificacao ((dados estado0)\<lparr>ritmos_permitidos := [''blitz'']\<rparr>) ''alice'' partida0"
    by (elim allE impE)
  from 1 f have 3: "ritmos_permitidos (dados (definir_filtro env0 [''Rapid'', ''x'', ''bullet'', ''RAPID''] estado0))
       = [''rapid'', ''bullet'', ''rapid'']" by (rule trans)
  from ne 3 s 2 show ?thesis by (intro conjI)
qed

end
